theory Spec2Isabelle
  imports Main
begin

section \<open>Python values, exceptions and log records\<close>

text \<open>
  The values the dispatch core handles.  An \<open>atom\<close> is a value whose \<open>str()\<close> the model
  computes (\<open>None\<close>, an integer, a string).  A \<open>pyval\<close> is any object that is used as a
  dictionary key, as a resource or as the argument of the identifier normalisation: an
  atom, a class (by name), an instance (class name, identity, attribute dictionary), a
  tuple or a dictionary of atoms, or a list.  Lists and dictionaries are unhashable.
\<close>

datatype atom = ANone | AInt int | AStr string

datatype pyval =
    PAtom atom
  | PClass string
  | PObj string nat "(string \<times> pyval) list"
  | PTuple "atom list"
  | PDict "(string \<times> atom) list"
  | PList "pyval list"

abbreviation PNone :: pyval where
  "PNone \<equiv> PAtom ANone"

abbreviation PStr :: "string \<Rightarrow> pyval" where
  "PStr s \<equiv> PAtom (AStr s)"

text \<open>
  \<open>errors.Error\<close> is the base class of the domain errors caught by \<open>API.handle_request\<close>;
  \<open>errors.NotFound\<close> is the one the core raises itself.  Every other exception of the
  model is a Python built-in.
\<close>

datatype error = NotFound | ErrorKind string

datatype exc =
    Error error
  | KeyError
  | ValueError
  | AttributeError
  | AssertionError
  | TypeError
  | IndexError
  | OtherException string

text \<open>\<open>LOG.warning(fmt, args)\<close>: the format string and the arguments the model computes.\<close>

datatype log_record = Warning string "string list"

fun type_of :: "pyval \<Rightarrow> pyval" where
  "type_of (PAtom ANone) = PClass ''NoneType''"
| "type_of (PAtom (AInt i)) = PClass ''int''"
| "type_of (PAtom (AStr s)) = PClass ''str''"
| "type_of (PClass c) = PClass ''type''"
| "type_of (PObj c i attrs) = PClass c"
| "type_of (PTuple xs) = PClass ''tuple''"
| "type_of (PDict kvs) = PClass ''dict''"
| "type_of (PList xs) = PClass ''list''"

fun hashable :: "pyval \<Rightarrow> bool" where
  "hashable (PDict kvs) = False"
| "hashable (PList xs) = False"
| "hashable v = True"

text \<open>\<open>d.get(k)\<close> on a dictionary: hashing an unhashable key raises \<open>TypeError\<close>.\<close>

definition dict_get :: "(pyval \<rightharpoonup> 'v) \<Rightarrow> pyval \<Rightarrow> exc + 'v option" where
  "dict_get d k = (if hashable k then Inr (d k) else Inl TypeError)"

text \<open>\<open>getattr(obj, key)\<close>; only instances carry attributes in the model.\<close>

fun py_getattr :: "pyval \<Rightarrow> string \<Rightarrow> exc + pyval" where
  "py_getattr (PObj c i attrs) k =
     (case map_of attrs k of None \<Rightarrow> Inl AttributeError | Some v \<Rightarrow> Inr v)"
| "py_getattr v k = Inl AttributeError"

text \<open>Iterating a value, as \<open>set.update(v)\<close> does.\<close>

fun py_iter :: "pyval \<Rightarrow> exc + pyval list" where
  "py_iter (PList xs) = Inr xs"
| "py_iter (PTuple xs) = Inr (map PAtom xs)"
| "py_iter (PDict kvs) = Inr (map (\<lambda>kv. PStr (fst kv)) kvs)"
| "py_iter (PAtom (AStr s)) = Inr (map (\<lambda>c. PStr [c]) s)"
| "py_iter v = Inl TypeError"

definition digit_char :: "nat \<Rightarrow> char" where
  "digit_char n = ''0123456789'' ! n"

fun string_of_nat :: "nat \<Rightarrow> string" where
  "string_of_nat n =
     (if n < 10 then [digit_char n] else string_of_nat (n div 10) @ [digit_char (n mod 10)])"

fun py_str :: "atom \<Rightarrow> string" where
  "py_str ANone = ''None''"
| "py_str (AInt i) = (if i < 0 then CHR ''-'' # string_of_nat (nat (- i)) else string_of_nat (nat i))"
| "py_str (AStr s) = s"

fun join_dot :: "string list \<Rightarrow> string" where
  "join_dot [] = []"
| "join_dot [x] = x"
| "join_dot (x # y # ys) = x @ CHR ''.'' # join_dot (y # ys)"

section \<open>Request and response\<close>

text \<open>
  The fields of \<open>request.Request\<close> the core reads and writes: \<open>request.parsed_uri.path\<close>,
  \<open>request.japi_uri_arguments\<close> and \<open>request.api\<close> (the identity of the bound API, or
  \<open>None\<close>).  \<open>response.Response\<close> has status, headers and body.
\<close>

record request =
  parsed_uri_path :: string
  japi_uri_arguments :: "string \<rightharpoonup> atom"
  request_api :: "nat option"

record response =
  status :: int
  headers :: "(string \<times> string) list"
  body :: "string option"

section \<open>Relationship descriptors and includers (includer.py)\<close>

datatype relationship_class = ToOneRelationship | ToManyRelationship

record relationship =
  rel_class :: relationship_class
  rel_name :: "string option"
  remote_types :: "string list option"
  fget :: "(pyval \<Rightarrow> request \<Rightarrow> exc + pyval) option"
  rel_key :: "string option"
  mapped_key :: "string option"

definition to_one :: "relationship \<Rightarrow> bool" where
  "to_one r = (rel_class r = ToOneRelationship)"

definition to_many :: "relationship \<Rightarrow> bool" where
  "to_many r = (rel_class r = ToManyRelationship)"

text \<open>\<open>Relationship.default_get\<close>: \<open>getattr(resource, self.mapped_key)\<close>.\<close>

definition default_get :: "relationship \<Rightarrow> pyval \<Rightarrow> request \<Rightarrow> exc + pyval" where
  "default_get r resource req =
     (case mapped_key r of None \<Rightarrow> Inl TypeError | Some k \<Rightarrow> py_getattr resource k)"

text \<open>\<open>Relationship.get\<close>: the getter if there is one, the mapped attribute otherwise.\<close>

definition relationship_get :: "relationship \<Rightarrow> pyval \<Rightarrow> request \<Rightarrow> exc + pyval" where
  "relationship_get r resource req =
     (case fget r of Some f \<Rightarrow> f resource req | None \<Rightarrow> default_get r resource req)"

text \<open>
  An \<open>Includer\<close>: its \<open>_relationships\<close> dictionary and \<open>__api\<close>, the identity of the API
  that owns it (\<open>None\<close> until \<open>init_api\<close>).
\<close>

record includer =
  relationships :: "string \<rightharpoonup> relationship"
  includer_api :: "nat option"

definition get_descriptor :: "includer \<Rightarrow> string \<Rightarrow> relationship option" where
  "get_descriptor self relname = relationships self relname"

definition add_includer_method :: "includer \<Rightarrow> string \<Rightarrow> relationship \<Rightarrow> includer" where
  "add_includer_method self k method =
     (let nm = (case rel_name method of None \<Rightarrow> k | Some n \<Rightarrow> (if n = [] then k else n));
          mk = (case mapped_key method of None \<Rightarrow> k | Some m \<Rightarrow> (if m = [] then k else m));
          method' = method\<lparr>rel_name := Some nm, mapped_key := Some mk, rel_key := Some k\<rparr>
      in self\<lparr>relationships := (relationships self)(nm \<mapsto> method')\<rparr>)"

text \<open>\<open>Includer.init_api\<close>: the assertion, then the binding.\<close>

definition includer_init_api :: "includer \<Rightarrow> nat \<Rightarrow> exc + includer" where
  "includer_init_api self i =
     (if includer_api self = None \<or> includer_api self = Some i
      then Inr (self\<lparr>includer_api := Some i\<rparr>)
      else Inl AssertionError)"

section \<open>Encoders, handlers and response builders (collaborators)\<close>

text \<open>
  What the core uses of an encoder: \<open>typename\<close>, \<open>resource_class\<close>, \<open>id(resource)\<close> and
  \<open>init_api(api)\<close>.  A handler's \<open>handle(request)\<close> returns a response or a response
  builder, or raises.  Of a builder the core asks whether it is an \<open>IncludeMixin\<close>, calls
  \<open>fetch_include()\<close> if so, and then \<open>to_response()\<close>.
\<close>

record encoder =
  typename :: "string option"
  resource_class :: "string option"
  encoder_id :: "pyval \<Rightarrow> string"
  encoder_init_api :: "nat \<Rightarrow> exc option"

record response_builder =
  is_include_mixin :: bool
  fetch_include :: "exc option"
  to_response :: "exc + response"

datatype handler_result = Response response | ResponseBuilder response_builder

type_synonym handler = "request \<Rightarrow> exc + handler_result"

section \<open>Regular expressions (the fragment of \<open>re\<close> the routes use)\<close>

text \<open>
  The built-in route patterns are \<open>re.escape(self._uri)\<close> followed by literal slashes,
  named groups \<open>(?P<name>[^/]+?)\<close>, an optional slash \<open>/?\<close> and \<open>$\<close>.  A pattern is
  kept as its syntax tree: \<open>Literal s\<close> is what \<open>re.escape(s)\<close> compiles to (it matches
  exactly \<open>s\<close>), \<open>NotInLazyPlus cs\<close> is \<open>[^cs]+?\<close>, \<open>Optional r\<close> is the greedy \<open>r?\<close>,
  \<open>Named n r\<close> is \<open>(?P<n>r)\<close>, \<open>Cat\<close> is concatenation and \<open>Dollar\<close> is \<open>$\<close>.

  \<open>rematch r s g\<close> is the backtracking matcher: every way \<open>r\<close> matches a prefix of
  \<open>s\<close>, in the order in which Python's engine tries them, each with the rest of the
  input and the groups captured so far (latest first).
\<close>

datatype regex =
    Literal string
  | NotInLazyPlus "char list"
  | Optional regex
  | Named string regex
  | Cat regex regex
  | Dollar

text \<open>The rests after one or more characters outside \<open>cs\<close>, shortest match first (lazy).\<close>

fun lazy_rests :: "char list \<Rightarrow> string \<Rightarrow> string list" where
  "lazy_rests cs [] = []"
| "lazy_rests cs (c # s) = (if c \<in> set cs then [] else s # lazy_rests cs s)"

fun rematch :: "regex \<Rightarrow> string \<Rightarrow> (string \<times> string) list \<Rightarrow> (string \<times> (string \<times> string) list) list" where
  "rematch (Literal l) s g = (if take (length l) s = l then [(drop (length l) s, g)] else [])"
| "rematch (NotInLazyPlus cs) s g = map (\<lambda>r. (r, g)) (lazy_rests cs s)"
| "rematch (Optional r) s g = rematch r s g @ [(s, g)]"
| "rematch (Named n r) s g =
     map (\<lambda>m. (fst m, (n, take (length s - length (fst m)) s) # snd m)) (rematch r s g)"
| "rematch (Cat r1 r2) s g = concat (map (\<lambda>m. rematch r2 (fst m) (snd m)) (rematch r1 s g))"
| "rematch Dollar s g = (if s = [] \<or> s = [CHR 0x0A] then [(s, g)] else [])"

fun group_names :: "regex \<Rightarrow> string list" where
  "group_names (Named n r) = n # group_names r"
| "group_names (Optional r) = group_names r"
| "group_names (Cat r1 r2) = group_names r1 @ group_names r2"
| "group_names r = []"

text \<open>
  \<open>re.fullmatch(pattern, string)\<close>: the first match that consumes the whole string, as
  the values of its named groups, or \<open>None\<close>.
\<close>

definition fullmatch :: "regex \<Rightarrow> string \<Rightarrow> (string \<times> string) list option" where
  "fullmatch r s =
     (case filter (\<lambda>m. fst m = []) (rematch r s []) of
        [] \<Rightarrow> None
      | m # ms \<Rightarrow> Some (snd m))"

text \<open>\<open>match.group(name)\<close>: the text of the group, \<open>None\<close> if it took no part in the match.\<close>

definition match_group :: "(string \<times> string) list \<Rightarrow> string \<Rightarrow> atom" where
  "match_group m n = (case map_of m n of None \<Rightarrow> ANone | Some t \<Rightarrow> AStr t)"

text \<open>\<open>match.groupdict()\<close>: every named group of the pattern with its value.\<close>

definition groupdict :: "regex \<Rightarrow> (string \<times> string) list \<Rightarrow> (string \<times> atom) list" where
  "groupdict r m = map (\<lambda>n. (n, match_group m n)) (group_names r)"

text \<open>\<open>d.update(other)\<close> on a dictionary with string keys.\<close>

definition dict_update :: "(string \<rightharpoonup> atom) \<Rightarrow> (string \<times> atom) list \<Rightarrow> (string \<rightharpoonup> atom)" where
  "dict_update d kvs = d ++ map_of kvs"

fun cat :: "regex list \<Rightarrow> regex" where
  "cat [] = Literal []"
| "cat [r] = r"
| "cat (r # rs) = Cat r (cat rs)"

section \<open>The API (api.py)\<close>

text \<open>
  The state of an \<open>API\<close> object: its identity, \<open>_debug\<close>, \<open>_uri\<close>, the four registry
  dictionaries \<open>_encoder\<close>, \<open>_resource_class_to_encoder\<close>, \<open>_includer\<close>,
  \<open>_resource_class_to_includer\<close>, the handler table \<open>_handler\<close> (keyed by tuples) and the
  custom routes \<open>_routes\<close> in insertion order, each rule in compiled form.
\<close>

record api =
  api_id :: nat
  api_debug :: bool
  api_uri :: string
  api_encoder :: "pyval \<rightharpoonup> encoder"
  api_resource_class_to_encoder :: "pyval \<rightharpoonup> encoder"
  api_includer :: "pyval \<rightharpoonup> includer"
  api_resource_class_to_includer :: "pyval \<rightharpoonup> includer"
  api_handler :: "pyval \<rightharpoonup> handler"
  api_routes :: "(regex \<times> handler) list"

text \<open>\<open>uri.rstrip("/")\<close>.\<close>

definition rstrip_slash :: "string \<Rightarrow> string" where
  "rstrip_slash s = rev (dropWhile (\<lambda>c. c = CHR ''/'') (rev s))"

text \<open>\<open>API.__init__(uri, debug)\<close> for the object with identity \<open>i\<close>: empty registries.\<close>

definition API :: "nat \<Rightarrow> string \<Rightarrow> bool \<Rightarrow> api" where
  "API i u dbg =
     \<lparr>api_id = i, api_debug = dbg, api_uri = rstrip_slash u,
      api_encoder = Map.empty, api_resource_class_to_encoder = Map.empty,
      api_includer = Map.empty, api_resource_class_to_includer = Map.empty,
      api_handler = Map.empty, api_routes = []\<rparr>"

definition debug :: "api \<Rightarrow> bool" where
  "debug self = api_debug self"

subsection \<open>Registry lookup\<close>

text \<open>
  What \<open>get_encoder\<close> and \<open>get_includer\<close> return: the registered object, or the caller's
  default.  The argument \<open>dflt\<close> (the parameter \<open>default\<close>) is \<open>None\<close> when the caller
  passed none (the parameter is then the sentinel \<open>ARG_DEFAULT\<close>) and \<open>Some d\<close> when the
  caller passed \<open>d\<close>.

  Class \<open>Includer\<close> defines neither \<open>__bool__\<close> nor \<open>__len__\<close>, and encoders are taken to do
  the same, so a registered object is true and \<open>x or y\<close> is \<open>x\<close> unless \<open>x\<close> is \<open>None\<close>.
  Instances are hashed by identity.
\<close>

datatype 'a lookup = Found 'a | Default pyval

definition get_encoder :: "api \<Rightarrow> pyval \<Rightarrow> pyval option \<Rightarrow> exc + encoder lookup" where
  "get_encoder self k dflt =
     (case dict_get (api_encoder self) k of
        Inl e \<Rightarrow> Inl e
      | Inr (Some encoder) \<Rightarrow> Inr (Found encoder)
      | Inr None \<Rightarrow>
         (case dict_get (api_resource_class_to_encoder self) k of
            Inl e \<Rightarrow> Inl e
          | Inr (Some encoder) \<Rightarrow> Inr (Found encoder)
          | Inr None \<Rightarrow>
             (case dict_get (api_resource_class_to_encoder self) (type_of k) of
                Inl e \<Rightarrow> Inl e
              | Inr (Some encoder) \<Rightarrow> Inr (Found encoder)
              | Inr None \<Rightarrow>
                 (case dflt of
                    Some d \<Rightarrow> Inr (Default d)
                  | None \<Rightarrow> Inl KeyError))))"

definition get_includer :: "api \<Rightarrow> pyval \<Rightarrow> pyval option \<Rightarrow> exc + includer lookup" where
  "get_includer self k dflt =
     (case dict_get (api_includer self) k of
        Inl e \<Rightarrow> Inl e
      | Inr (Some includer) \<Rightarrow> Inr (Found includer)
      | Inr None \<Rightarrow>
         (case dict_get (api_resource_class_to_includer self) k of
            Inl e \<Rightarrow> Inl e
          | Inr (Some includer) \<Rightarrow> Inr (Found includer)
          | Inr None \<Rightarrow>
             (case dict_get (api_resource_class_to_includer self) (type_of k) of
                Inl e \<Rightarrow> Inl e
              | Inr (Some includer) \<Rightarrow> Inr (Found includer)
              | Inr None \<Rightarrow>
                 (case dflt of
                    Some d \<Rightarrow> Inr (Default d)
                  | None \<Rightarrow> Inl KeyError))))"

section \<open>Include paths (includer.py)\<close>

text \<open>
  \<open>Includer.path_exists\<close>.  \<open>apis\<close> is the heap of API objects by identity, through which
  \<open>self.__api\<close> is followed; the result is the returned boolean or the exception raised,
  together with the warnings logged.  \<open>remote_types_loop\<close> is the \<open>for\<close> loop over
  \<open>relationship.remote_types\<close>: each remote type is resolved by \<open>get_includer\<close> without
  a default, and the first includer that rejects the remaining path ends the loop.
\<close>

fun path_exists :: "(nat \<Rightarrow> api) \<Rightarrow> includer \<Rightarrow> string list \<Rightarrow> (exc + bool) \<times> log_record list"
  and remote_types_loop ::
    "(nat \<Rightarrow> api) \<Rightarrow> includer \<Rightarrow> string list \<Rightarrow> string list \<Rightarrow> (exc + bool) \<times> log_record list"
where
  "path_exists apis self [] = (Inr True, [])"
| "path_exists apis self (nm # rest) =
     (case relationships self nm of
        None \<Rightarrow> (Inr False, [])
      | Some relationship \<Rightarrow>
         (case remote_types relationship of
            None \<Rightarrow>
              (Inr True,
               [Warning ''Can not check, if the include path '%s' exists, because the remote_types of the relationship '%s' on '%s' are not known.''
                  [join_dot rest, nm]])
          | Some rts \<Rightarrow> remote_types_loop apis self rts rest))"
| "remote_types_loop apis self [] rest = (Inr True, [])"
| "remote_types_loop apis self (remote_type # rts) rest =
     (case includer_api self of
        None \<Rightarrow> (Inl AttributeError, [])
      | Some i \<Rightarrow>
         (case get_includer (apis i) (PStr remote_type) None of
            Inl e \<Rightarrow> (Inl e, [])
          | Inr (Default d) \<Rightarrow> (Inl AttributeError, [])
          | Inr (Found remote_includer) \<Rightarrow>
             (case path_exists apis remote_includer rest of
                (Inl e, l) \<Rightarrow> (Inl e, l)
              | (Inr ok, l) \<Rightarrow>
                 (if \<not> ok then (Inr False, l)
                  else (case remote_types_loop apis self rts rest of
                          (r, l') \<Rightarrow> (r, l @ l'))))))"

text \<open>\<open>Includer.paths_exist\<close>: \<open>all(...)\<close> over a generator stops at the first false.\<close>

fun paths_exist :: "(nat \<Rightarrow> api) \<Rightarrow> includer \<Rightarrow> string list list \<Rightarrow> (exc + bool) \<times> log_record list" where
  "paths_exist apis self [] = (Inr True, [])"
| "paths_exist apis self (p # ps) =
     (case path_exists apis self p of
        (Inl e, l) \<Rightarrow> (Inl e, l)
      | (Inr ok, l) \<Rightarrow>
         (if \<not> ok then (Inr False, l)
          else (case paths_exist apis self ps of (r, l') \<Rightarrow> (r, l @ l'))))"

text \<open>
  The two loops of \<open>Includer.fetch_path\<close> over the input resources: \<open>related.add(...)\<close>
  for a to-one relationship, \<open>related.update(...)\<close> for a to-many one.  Adding an
  unhashable value to a set raises \<open>TypeError\<close>.
\<close>

fun add_loop :: "relationship \<Rightarrow> request \<Rightarrow> pyval list \<Rightarrow> pyval set \<Rightarrow> exc + pyval set" where
  "add_loop relationship req [] related = Inr related"
| "add_loop relationship req (resource # resources) related =
     (case relationship_get relationship resource req of
        Inl e \<Rightarrow> Inl e
      | Inr v \<Rightarrow>
         (if hashable v then add_loop relationship req resources (insert v related)
          else Inl TypeError))"

fun update_loop :: "relationship \<Rightarrow> request \<Rightarrow> pyval list \<Rightarrow> pyval set \<Rightarrow> exc + pyval set" where
  "update_loop relationship req [] related = Inr related"
| "update_loop relationship req (resource # resources) related =
     (case relationship_get relationship resource req of
        Inl e \<Rightarrow> Inl e
      | Inr v \<Rightarrow>
         (case py_iter v of
            Inl e \<Rightarrow> Inl e
          | Inr items \<Rightarrow>
             (if list_all hashable items
              then update_loop relationship req resources (related \<union> set items)
              else Inl TypeError)))"

text \<open>
  \<open>Includer.fetch_path\<close>.  \<open>name, *path = path\<close> raises \<open>ValueError\<close> on an empty list,
  \<open>self._relationships[name]\<close> raises \<open>KeyError\<close> on an unknown name, and the rest of the
  path is never read again.
\<close>

definition fetch_path :: "includer \<Rightarrow> pyval list \<Rightarrow> string list \<Rightarrow> request \<Rightarrow> exc + pyval set" where
  "fetch_path self resources p req =
     (case p of
        [] \<Rightarrow> Inl ValueError
      | nm # rest \<Rightarrow>
         (case relationships self nm of
            None \<Rightarrow> Inl KeyError
          | Some relationship \<Rightarrow>
             (if to_one relationship
              then (case add_loop relationship req resources {} of
                      Inl e \<Rightarrow> Inl e
                    | Inr related \<Rightarrow> Inr (related - {PNone}))
              else update_loop relationship req resources {})))"

fun fetch_paths_loop :: "includer \<Rightarrow> pyval list \<Rightarrow> string list list \<Rightarrow> request \<Rightarrow> pyval set \<Rightarrow> exc + pyval set" where
  "fetch_paths_loop self resources [] req related = Inr related"
| "fetch_paths_loop self resources (p # ps) req related =
     (case fetch_path self resources p req of
        Inl e \<Rightarrow> Inl e
      | Inr found \<Rightarrow> fetch_paths_loop self resources ps req (related \<union> found))"

definition fetch_paths :: "includer \<Rightarrow> pyval list \<Rightarrow> string list list \<Rightarrow> request \<Rightarrow> exc + pyval set" where
  "fetch_paths self resources ps req = fetch_paths_loop self resources ps req {}"

section \<open>Registration and identifier normalisation (api.py)\<close>

text \<open>
  Evaluating \<open>self.typename\<close> where \<open>self\<close> is the \<open>API\<close> object, as the two
  \<open>LOG.warning\<close> calls of \<open>add_type\<close> do for their argument: class \<open>API\<close> defines no
  attribute of that name, so the attribute access raises \<open>AttributeError\<close>.
\<close>

definition self_typename :: "api \<Rightarrow> exc + string" where
  "self_typename self = Inl AttributeError"

definition typename_key :: "string option \<Rightarrow> pyval" where
  "typename_key t = (case t of None \<Rightarrow> PNone | Some n \<Rightarrow> PStr n)"

text \<open>
  \<open>API.add_type\<close>.  The result is the exception raised (if any), the API as the call
  leaves it, and the warnings logged.  The arguments of \<open>LOG.warning\<close> are evaluated
  before anything is logged or registered.
\<close>

definition add_type :: "api \<Rightarrow> encoder \<Rightarrow> includer option \<Rightarrow> exc option \<times> api \<times> log_record list" where
  "add_type self encoder includer =
     (case (if resource_class encoder = None
            then (case self_typename self of
                    Inl e \<Rightarrow> Inl e
                  | Inr t \<Rightarrow> Inr [Warning ''The encoder '%s' is not assigned to a resource class.'' [t]])
            else Inr []) of
        Inl e \<Rightarrow> (Some e, self, [])
      | Inr log1 \<Rightarrow>
         (case (if typename encoder = None
                then (case self_typename self of
                        Inl e \<Rightarrow> Inl e
                      | Inr t \<Rightarrow> Inr [Warning ''The encoder '%s' has no typename.'' [t]])
                else Inr []) of
            Inl e \<Rightarrow> (Some e, self, log1)
          | Inr log2 \<Rightarrow>
             (case encoder_init_api encoder (api_id self) of
                Some e \<Rightarrow> (Some e, self, log1 @ log2)
              | None \<Rightarrow>
                 (let self1 = self\<lparr>api_encoder := (api_encoder self)(typename_key (typename encoder) \<mapsto> encoder)\<rparr>;
                      self2 = (case resource_class encoder of
                                 None \<Rightarrow> self1
                               | Some rc \<Rightarrow>
                                   self1\<lparr>api_resource_class_to_encoder :=
                                     (api_resource_class_to_encoder self1)(PClass rc \<mapsto> encoder)\<rparr>)
                  in (case includer of
                        None \<Rightarrow> (None, self2, log1 @ log2)
                      | Some inc \<Rightarrow>
                         (case includer_init_api inc (api_id self) of
                            Inl e \<Rightarrow> (Some e, self2, log1 @ log2)
                          | Inr inc' \<Rightarrow>
                             (let self3 = self2\<lparr>api_includer :=
                                    (api_includer self2)(typename_key (typename encoder) \<mapsto> inc')\<rparr>;
                                  self4 = (case resource_class encoder of
                                             None \<Rightarrow> self3
                                           | Some rc \<Rightarrow>
                                               self3\<lparr>api_resource_class_to_includer :=
                                                 (api_resource_class_to_includer self3)(PClass rc \<mapsto> inc')\<rparr>)
                              in (None, self4, log1 @ log2))))))))"

text \<open>\<open>API.ensure_identifier_object\<close>: \<open>None\<close>, a tuple, a dictionary, or a resource.\<close>

definition ensure_identifier_object :: "api \<Rightarrow> pyval \<Rightarrow> exc + pyval" where
  "ensure_identifier_object self obj =
     (case obj of
        PAtom ANone \<Rightarrow> Inr PNone
      | PTuple xs \<Rightarrow>
         (if length xs < 2 then Inl IndexError
          else Inr (PDict [(''type'', AStr (py_str (xs ! 0))), (''id'', AStr (py_str (xs ! 1)))]))
      | PDict kvs \<Rightarrow>
         (case map_of kvs ''type'' of
            None \<Rightarrow> Inl KeyError
          | Some t \<Rightarrow>
             (case map_of kvs ''id'' of
                None \<Rightarrow> Inl KeyError
              | Some i \<Rightarrow> Inr (PDict [(''type'', AStr (py_str t)), (''id'', AStr (py_str i))])))
      | _ \<Rightarrow>
         (case get_encoder self obj None of
            Inl e \<Rightarrow> Inl e
          | Inr (Default d) \<Rightarrow> Inl AttributeError
          | Inr (Found encoder) \<Rightarrow>
             Inr (PDict [(''type'', (case typename encoder of None \<Rightarrow> ANone | Some t \<Rightarrow> AStr t)),
                         (''id'', AStr (encoder_id encoder obj))])))"

text \<open>
  \<open>API.ensure_identifier\<close>: a tuple (of length two), a dictionary, or anything else,
  which is looked up in the registry as a resource.  There is no branch for \<open>None\<close>.
  \<open>jsonapi_id_tuple(type, id)\<close> is the pair as a tuple.
\<close>

definition ensure_identifier :: "api \<Rightarrow> pyval \<Rightarrow> exc + pyval" where
  "ensure_identifier self obj =
     (case obj of
        PTuple xs \<Rightarrow>
         (if length xs \<noteq> 2 then Inl AssertionError
          else Inr (PTuple [AStr (py_str (xs ! 0)), AStr (py_str (xs ! 1))]))
      | PDict kvs \<Rightarrow>
         (case map_of kvs ''type'' of
            None \<Rightarrow> Inl KeyError
          | Some t \<Rightarrow>
             (case map_of kvs ''id'' of
                None \<Rightarrow> Inl KeyError
              | Some i \<Rightarrow> Inr (PTuple [AStr (py_str t), AStr (py_str i)])))
      | _ \<Rightarrow>
         (case get_encoder self obj None of
            Inl e \<Rightarrow> Inl e
          | Inr (Default d) \<Rightarrow> Inl AttributeError
          | Inr (Found encoder) \<Rightarrow>
             Inr (PTuple [(case typename encoder of None \<Rightarrow> ANone | Some t \<Rightarrow> AStr t),
                          AStr (encoder_id encoder obj)])))"

section \<open>Routing and dispatch (api.py)\<close>

text \<open>The loop of \<open>_get_handler\<close> over the custom routes, in insertion order.\<close>

fun custom_routes_loop :: "(regex \<times> handler) list \<Rightarrow> request \<Rightarrow> (handler \<times> request) option" where
  "custom_routes_loop [] req = None"
| "custom_routes_loop (route # routes) req =
     (case fullmatch (fst route) (parsed_uri_path req) of
        Some m \<Rightarrow>
          Some (snd route,
                req\<lparr>japi_uri_arguments := dict_update (japi_uri_arguments req) (groupdict (fst route) m)\<rparr>)
      | None \<Rightarrow> custom_routes_loop routes req)"

text \<open>The four built-in patterns, each starting with \<open>re.escape(self._uri)\<close>.\<close>

definition collection_re :: "api \<Rightarrow> regex" where
  "collection_re self =
     cat [Literal (api_uri self), Literal ''/'', Named ''type'' (NotInLazyPlus ''/''),
          Optional (Literal ''/''), Dollar]"

definition resource_re :: "api \<Rightarrow> regex" where
  "resource_re self =
     cat [Literal (api_uri self), Literal ''/'', Named ''type'' (NotInLazyPlus ''/''),
          Literal ''/'', Named ''id'' (NotInLazyPlus ''/''),
          Optional (Literal ''/''), Dollar]"

definition relationship_re :: "api \<Rightarrow> regex" where
  "relationship_re self =
     cat [Literal (api_uri self), Literal ''/'', Named ''type'' (NotInLazyPlus ''/''),
          Literal ''/'', Named ''id'' (NotInLazyPlus ''/''),
          Literal ''/relationships/'', Named ''relname'' (NotInLazyPlus ''/''),
          Optional (Literal ''/''), Dollar]"

definition related_re :: "api \<Rightarrow> regex" where
  "related_re self =
     cat [Literal (api_uri self), Literal ''/'', Named ''type'' (NotInLazyPlus ''/''),
          Literal ''/'', Named ''id'' (NotInLazyPlus ''/''),
          Literal ''/'', Named ''relname'' (NotInLazyPlus ''/''),
          Optional (Literal ''/''), Dollar]"

definition merge_arguments :: "request \<Rightarrow> regex \<Rightarrow> (string \<times> string) list \<Rightarrow> request" where
  "merge_arguments req r m =
     req\<lparr>japi_uri_arguments := dict_update (japi_uri_arguments req) (groupdict r m)\<rparr>"

text \<open>
  \<open>API._get_handler\<close>: the handler found (or \<open>None\<close>) and the request with its
  \<open>japi_uri_arguments\<close> updated by the pattern that matched.
\<close>

definition get_handler :: "api \<Rightarrow> request \<Rightarrow> handler option \<times> request" where
  "get_handler self req =
     (case custom_routes_loop (api_routes self) req of
        Some hr \<Rightarrow> (Some (fst hr), snd hr)
      | None \<Rightarrow>
         (case fullmatch (collection_re self) (parsed_uri_path req) of
            Some m \<Rightarrow>
              (api_handler self (PTuple [match_group m ''type'', AStr ''collection'']),
               merge_arguments req (collection_re self) m)
          | None \<Rightarrow>
             (case fullmatch (resource_re self) (parsed_uri_path req) of
                Some m \<Rightarrow>
                  (api_handler self (PTuple [match_group m ''type'', AStr ''resource'']),
                   merge_arguments req (resource_re self) m)
              | None \<Rightarrow>
                 (case fullmatch (relationship_re self) (parsed_uri_path req) of
                    Some m \<Rightarrow>
                      (api_handler self
                         (PTuple [match_group m ''type'', AStr ''relationship'', match_group m ''relname'']),
                       merge_arguments req (relationship_re self) m)
                  | None \<Rightarrow>
                     (case fullmatch (related_re self) (parsed_uri_path req) of
                        Some m \<Rightarrow>
                          (api_handler self
                             (PTuple [match_group m ''type'', AStr ''related'', match_group m ''relname'']),
                           merge_arguments req (related_re self) m)
                      | None \<Rightarrow> (None, req))))))"

text \<open>\<open>API.prepare_request\<close>: the base class does nothing; a subclass may override it.\<close>

definition prepare_request :: "api \<Rightarrow> request \<Rightarrow> exc + request" where
  "prepare_request self req = Inr req"

text \<open>
  \<open>API.dump_json\<close>: \<open>json.dumps(obj, indent, sort_keys)\<close>, indented and sorted in debug
  mode.  \<open>json.dumps\<close> itself is a parameter.
\<close>

definition dump_json :: "(pyval \<Rightarrow> nat option \<Rightarrow> bool \<Rightarrow> string) \<Rightarrow> api \<Rightarrow> pyval \<Rightarrow> string" where
  "dump_json json_dumps self obj =
     json_dumps obj (if debug self then Some 4 else None) (debug self)"

text \<open>
  What \<open>handle_request\<close> calls outside the core: the \<open>prepare_request\<close> method the object
  dispatches to, \<open>errors.error_to_response\<close>, and \<open>json.dumps\<close>.
\<close>

record collaborators =
  prepare_hook :: "api \<Rightarrow> request \<Rightarrow> exc + request"
  error_to_response :: "error \<Rightarrow> (pyval \<Rightarrow> string) \<Rightarrow> response"
  json_dumps :: "pyval \<Rightarrow> nat option \<Rightarrow> bool \<Rightarrow> string"

text \<open>The body of the \<open>try\<close> block of \<open>API.handle_request\<close>.\<close>

definition handle_request_try :: "collaborators \<Rightarrow> api \<Rightarrow> request \<Rightarrow> exc + response" where
  "handle_request_try c self req =
     (case prepare_hook c self req of
        Inl e \<Rightarrow> Inl e
      | Inr req1 \<Rightarrow>
         (case get_handler self req1 of
            (None, req2) \<Rightarrow> Inl (Error NotFound)
          | (Some handler, req2) \<Rightarrow>
             (case handler req2 of
                Inl e \<Rightarrow> Inl e
              | Inr (Response resp) \<Rightarrow> Inr resp
              | Inr (ResponseBuilder b) \<Rightarrow>
                 (if is_include_mixin b
                  then (case fetch_include b of
                          Some e \<Rightarrow> Inl e
                        | None \<Rightarrow> to_response b)
                  else to_response b))))"

text \<open>
  \<open>API.handle_request\<close>: the assertion on \<open>request.api\<close>, the binding, the \<open>try\<close> block,
  and the handler for \<open>errors.Error\<close>, which re-raises in debug mode and converts the
  error to a response otherwise.  Any other exception is not caught.
\<close>

definition handle_request :: "collaborators \<Rightarrow> api \<Rightarrow> request \<Rightarrow> exc + response" where
  "handle_request c self req =
     (if \<not> (request_api req = None \<or> request_api req = Some (api_id self))
      then Inl AssertionError
      else (case handle_request_try c self (req\<lparr>request_api := Some (api_id self)\<rparr>) of
              Inl (Error err) \<Rightarrow>
                (if debug self then Inl (Error err)
                 else Inr (error_to_response c err (dump_json (json_dumps c) self)))
            | Inl e \<Rightarrow> Inl e
            | Inr resp \<Rightarrow> Inr resp))"

section \<open>The error serializer\<close>

text \<open>
  Modelled from the spec: \<open>errors.error_to_response\<close> (module \<open>jsonapi.errors\<close>) is not
  among the sources; \<open>handle_request\<close> only calls it.  The spec says of it that a domain
  error "is converted to a structured error Response via a collaborator serializer" and
  that the result is "a Response with a non-2xx status".  The serializer is therefore a
  parameter of the dispatcher that returns a response for every domain error (it is a
  function, so it raises nothing), and the contract below is the spec's sentence:
  whatever the error and the JSON encoder, the status of the response lies outside
  200..299.
\<close>

definition error_response_contract :: "(error \<Rightarrow> (pyval \<Rightarrow> string) \<Rightarrow> response) \<Rightarrow> bool" where
  "error_response_contract f =
     (\<forall>err dj. \<not> (200 \<le> status (f err dj) \<and> status (f err dj) < 300))"

section \<open>Example objects\<close>

text \<open>
  A dispatcher with base URI \<open>http://x/api\<close>, no custom routes and handlers for the four
  endpoints of the type \<open>widgets\<close>; the same dispatcher with the base URI \<open>/api\<close>, which
  is a path; and a small registry of includers: articles have an author (a user),
  comments, a polymorphic subject (a comment or a user), tags of unknown remote type,
  and an editor whose second remote type \<open>Robot\<close> is not registered.
\<close>

definition ex_request :: "string \<Rightarrow> request" where
  "ex_request p = \<lparr>parsed_uri_path = p, japi_uri_arguments = Map.empty, request_api = None\<rparr>"

definition ex_response :: "int \<Rightarrow> response" where
  "ex_response n = \<lparr>status = n, headers = [], body = None\<rparr>"

definition ex_handler :: handler where
  "ex_handler req = Inr (Response (ex_response 200))"

definition ex_api :: "bool \<Rightarrow> api" where
  "ex_api dbg =
     (API 0 ''http://x/api'' dbg)\<lparr>api_handler :=
        [PTuple [AStr ''widgets'', AStr ''collection''] \<mapsto> ex_handler,
         PTuple [AStr ''widgets'', AStr ''resource''] \<mapsto> ex_handler,
         PTuple [AStr ''widgets'', AStr ''relationship'', AStr ''owner''] \<mapsto> ex_handler,
         PTuple [AStr ''widgets'', AStr ''related'', AStr ''owner''] \<mapsto> ex_handler]\<rparr>"

definition ex_path_api :: api where
  "ex_path_api =
     (API 1 ''/api'' True)\<lparr>api_handler :=
        [PTuple [AStr ''widgets'', AStr ''collection''] \<mapsto> ex_handler,
         PTuple [AStr ''widgets'', AStr ''resource''] \<mapsto> ex_handler,
         PTuple [AStr ''widgets'', AStr ''relationship'', AStr ''owner''] \<mapsto> ex_handler,
         PTuple [AStr ''widgets'', AStr ''related'', AStr ''owner''] \<mapsto> ex_handler]\<rparr>"

definition ex_collaborators :: collaborators where
  "ex_collaborators =
     \<lparr>prepare_hook = prepare_request,
      error_to_response = (\<lambda>err dj. ex_response (if err = NotFound then 404 else 500)),
      json_dumps = (\<lambda>obj indent sort_keys. [])\<rparr>"

definition ex_rel :: "relationship_class \<Rightarrow> string \<Rightarrow> string list option \<Rightarrow> relationship" where
  "ex_rel cls nm rts =
     \<lparr>rel_class = cls, rel_name = Some nm, remote_types = rts, fget = None,
      rel_key = Some nm, mapped_key = Some nm\<rparr>"

definition user_includer :: includer where
  "user_includer =
     \<lparr>relationships = [''articles'' \<mapsto> ex_rel ToManyRelationship ''articles'' (Some [''Article''])],
      includer_api = Some 0\<rparr>"

definition comment_includer :: includer where
  "comment_includer =
     \<lparr>relationships = [''author'' \<mapsto> ex_rel ToOneRelationship ''author'' (Some [''User''])],
      includer_api = Some 0\<rparr>"

definition article_includer :: includer where
  "article_includer =
     \<lparr>relationships =
        [''author'' \<mapsto> ex_rel ToOneRelationship ''author'' (Some [''User'']),
         ''comments'' \<mapsto> ex_rel ToManyRelationship ''comments'' (Some [''Comment'']),
         ''subject'' \<mapsto> ex_rel ToOneRelationship ''subject'' (Some [''Comment'', ''User'']),
         ''tags'' \<mapsto> ex_rel ToManyRelationship ''tags'' None,
         ''editor'' \<mapsto> ex_rel ToOneRelationship ''editor'' (Some [''User'', ''Robot''])],
      includer_api = Some 0\<rparr>"

definition ex_registry :: api where
  "ex_registry =
     (API 0 ''/api'' True)\<lparr>api_includer :=
        [PStr ''Article'' \<mapsto> article_includer,
         PStr ''User'' \<mapsto> user_includer,
         PStr ''Comment'' \<mapsto> comment_includer]\<rparr>"

definition ex_apis :: "nat \<Rightarrow> api" where
  "ex_apis i = ex_registry"

definition ex_user :: pyval where
  "ex_user = PObj ''User'' 7 []"

definition ex_article :: "nat \<Rightarrow> pyval \<Rightarrow> pyval" where
  "ex_article i author = PObj ''Article'' i [(''author'', author)]"

definition ex_encoder :: "string option \<Rightarrow> string option \<Rightarrow> encoder" where
  "ex_encoder t rc =
     \<lparr>typename = t, resource_class = rc, encoder_id = (\<lambda>resource. ''1''),
      encoder_init_api = (\<lambda>i. None)\<rparr>"

section \<open>Routing\<close>

lemma rematch_Literal_append: "rematch (Literal b) (b @ s) g = [(s, g)]"
  by simp

lemmas route_defs =
  get_handler_def collection_re_def resource_re_def relationship_re_def related_re_def
  fullmatch_def merge_arguments_def groupdict_def match_group_def dict_update_def

text \<open>
  Each built-in pattern begins with the whole of \<open>self._uri\<close>.  So a path is matched only
  if it begins with that string, and then the rest decides the endpoint: with no custom
  routes, the base URI followed by \<open>/widgets\<close>, \<open>/widgets/42\<close>,
  \<open>/widgets/42/relationships/owner\<close> or \<open>/widgets/42/owner\<close> is matched by the Collection,
  Resource, Relationship and Related pattern respectively, the handler is looked up under
  that endpoint's key, and the groups are merged into the request's arguments.
\<close>

lemma get_handler_base_prefixed_paths:
  assumes "api_routes self = []"
  shows "get_handler self (req\<lparr>parsed_uri_path := api_uri self @ ''/widgets''\<rparr>) =
       (api_handler self (PTuple [AStr ''widgets'', AStr ''collection'']),
        req\<lparr>parsed_uri_path := api_uri self @ ''/widgets'',
            japi_uri_arguments := (japi_uri_arguments req)(''type'' \<mapsto> AStr ''widgets'')\<rparr>)
     \<and> get_handler self (req\<lparr>parsed_uri_path := api_uri self @ ''/widgets/42''\<rparr>) =
       (api_handler self (PTuple [AStr ''widgets'', AStr ''resource'']),
        req\<lparr>parsed_uri_path := api_uri self @ ''/widgets/42'',
            japi_uri_arguments := (japi_uri_arguments req)
              (''type'' \<mapsto> AStr ''widgets'', ''id'' \<mapsto> AStr ''42'')\<rparr>)
     \<and> get_handler self (req\<lparr>parsed_uri_path := api_uri self @ ''/widgets/42/relationships/owner''\<rparr>) =
       (api_handler self (PTuple [AStr ''widgets'', AStr ''relationship'', AStr ''owner'']),
        req\<lparr>parsed_uri_path := api_uri self @ ''/widgets/42/relationships/owner'',
            japi_uri_arguments := (japi_uri_arguments req)
              (''type'' \<mapsto> AStr ''widgets'', ''id'' \<mapsto> AStr ''42'', ''relname'' \<mapsto> AStr ''owner'')\<rparr>)
     \<and> get_handler self (req\<lparr>parsed_uri_path := api_uri self @ ''/widgets/42/owner''\<rparr>) =
       (api_handler self (PTuple [AStr ''widgets'', AStr ''related'', AStr ''owner'']),
        req\<lparr>parsed_uri_path := api_uri self @ ''/widgets/42/owner'',
            japi_uri_arguments := (japi_uri_arguments req)
              (''type'' \<mapsto> AStr ''widgets'', ''id'' \<mapsto> AStr ''42'', ''relname'' \<mapsto> AStr ''owner'')\<rparr>)"
proof (intro conjI)
  show "get_handler self (req\<lparr>parsed_uri_path := api_uri self @ ''/widgets''\<rparr>) =
       (api_handler self (PTuple [AStr ''widgets'', AStr ''collection'']),
        req\<lparr>parsed_uri_path := api_uri self @ ''/widgets'',
            japi_uri_arguments := (japi_uri_arguments req)(''type'' \<mapsto> AStr ''widgets'')\<rparr>)"
    using assms by (simp add: route_defs)
next
  show "get_handler self (req\<lparr>parsed_uri_path := api_uri self @ ''/widgets/42''\<rparr>) =
       (api_handler self (PTuple [AStr ''widgets'', AStr ''resource'']),
        req\<lparr>parsed_uri_path := api_uri self @ ''/widgets/42'',
            japi_uri_arguments := (japi_uri_arguments req)
              (''type'' \<mapsto> AStr ''widgets'', ''id'' \<mapsto> AStr ''42'')\<rparr>)"
    using assms by (simp add: route_defs fun_upd_twist)
next
  show "get_handler self (req\<lparr>parsed_uri_path := api_uri self @ ''/widgets/42/relationships/owner''\<rparr>) =
       (api_handler self (PTuple [AStr ''widgets'', AStr ''relationship'', AStr ''owner'']),
        req\<lparr>parsed_uri_path := api_uri self @ ''/widgets/42/relationships/owner'',
            japi_uri_arguments := (japi_uri_arguments req)
              (''type'' \<mapsto> AStr ''widgets'', ''id'' \<mapsto> AStr ''42'', ''relname'' \<mapsto> AStr ''owner'')\<rparr>)"
    using assms by (simp add: route_defs fun_upd_twist)
next
  show "get_handler self (req\<lparr>parsed_uri_path := api_uri self @ ''/widgets/42/owner''\<rparr>) =
       (api_handler self (PTuple [AStr ''widgets'', AStr ''related'', AStr ''owner'']),
        req\<lparr>parsed_uri_path := api_uri self @ ''/widgets/42/owner'',
            japi_uri_arguments := (japi_uri_arguments req)
              (''type'' \<mapsto> AStr ''widgets'', ''id'' \<mapsto> AStr ''42'', ''relname'' \<mapsto> AStr ''owner'')\<rparr>)"
    using assms by (simp add: route_defs fun_upd_twist)
qed

text \<open>
  When the base URI is itself a path, such as \<open>/api\<close>, these are the paths of real
  requests: \<open>/api/widgets\<close> is the path of the URL \<open>http://x/api/widgets\<close>.
\<close>

lemma get_handler_path_base:
  "get_handler ex_path_api (ex_request ''/api/widgets'') =
       (Some ex_handler,
        (ex_request ''/api/widgets'')\<lparr>japi_uri_arguments := [''type'' \<mapsto> AStr ''widgets'']\<rparr>)
   \<and> get_handler ex_path_api (ex_request ''/api/widgets/42'') =
       (Some ex_handler,
        (ex_request ''/api/widgets/42'')\<lparr>japi_uri_arguments :=
           [''type'' \<mapsto> AStr ''widgets'', ''id'' \<mapsto> AStr ''42'']\<rparr>)
   \<and> get_handler ex_path_api (ex_request ''/api/widgets/42/relationships/owner'') =
       (Some ex_handler,
        (ex_request ''/api/widgets/42/relationships/owner'')\<lparr>japi_uri_arguments :=
           [''type'' \<mapsto> AStr ''widgets'', ''id'' \<mapsto> AStr ''42'', ''relname'' \<mapsto> AStr ''owner'']\<rparr>)
   \<and> get_handler ex_path_api (ex_request ''/api/widgets/42/owner'') =
       (Some ex_handler,
        (ex_request ''/api/widgets/42/owner'')\<lparr>japi_uri_arguments :=
           [''type'' \<mapsto> AStr ''widgets'', ''id'' \<mapsto> AStr ''42'', ''relname'' \<mapsto> AStr ''owner'']\<rparr>)"
proof -
  have uri: "api_uri ex_path_api = ''/api''"
    by (simp add: ex_path_api_def API_def rstrip_slash_def)
  show ?thesis
    using get_handler_base_prefixed_paths [of ex_path_api "ex_request []"]
    by (simp add: uri) (simp add: ex_path_api_def API_def ex_request_def)
qed

text \<open>
  Claim C1 (the code departs from it).  The dispatcher has the base URI \<open>http://x/api\<close>,
  no custom routes, and a handler registered for each of the four endpoints of \<open>widgets\<close>.
  The patterns are built from the whole base URI, scheme and host included, but are
  matched against the path of the request only.  So neither the paths of the claim,
  \<open>/widgets\<close>, \<open>/widgets/42\<close>, \<open>/widgets/42/relationships/owner\<close> and \<open>/widgets/42/owner\<close>, nor
  the paths of the URLs below the base, \<open>/api/widgets\<close>, \<open>/api/widgets/42\<close>,
  \<open>/api/widgets/42/relationships/owner\<close> and \<open>/api/widgets/42/owner\<close>, match any pattern:
  \<open>_get_handler\<close> returns \<open>None\<close> and leaves the request's arguments as they were.
\<close>

theorem get_handler_full_uri_base_unroutable:
  "api_uri (ex_api True) = ''http://x/api''
   \<and> api_routes (ex_api True) = []
   \<and> api_handler (ex_api True) (PTuple [AStr ''widgets'', AStr ''collection'']) = Some ex_handler
   \<and> api_handler (ex_api True) (PTuple [AStr ''widgets'', AStr ''resource'']) = Some ex_handler
   \<and> api_handler (ex_api True) (PTuple [AStr ''widgets'', AStr ''relationship'', AStr ''owner''])
       = Some ex_handler
   \<and> api_handler (ex_api True) (PTuple [AStr ''widgets'', AStr ''related'', AStr ''owner''])
       = Some ex_handler
   \<and> get_handler (ex_api True) (ex_request ''/widgets'') = (None, ex_request ''/widgets'')
   \<and> get_handler (ex_api True) (ex_request ''/widgets/42'') = (None, ex_request ''/widgets/42'')
   \<and> get_handler (ex_api True) (ex_request ''/widgets/42/relationships/owner'')
       = (None, ex_request ''/widgets/42/relationships/owner'')
   \<and> get_handler (ex_api True) (ex_request ''/widgets/42/owner'') = (None, ex_request ''/widgets/42/owner'')
   \<and> get_handler (ex_api True) (ex_request ''/api/widgets'') = (None, ex_request ''/api/widgets'')
   \<and> get_handler (ex_api True) (ex_request ''/api/widgets/42'') = (None, ex_request ''/api/widgets/42'')
   \<and> get_handler (ex_api True) (ex_request ''/api/widgets/42/relationships/owner'')
       = (None, ex_request ''/api/widgets/42/relationships/owner'')
   \<and> get_handler (ex_api True) (ex_request ''/api/widgets/42/owner'')
       = (None, ex_request ''/api/widgets/42/owner'')
   \<and> japi_uri_arguments (snd (get_handler (ex_api True) (ex_request ''/widgets''))) = Map.empty
   \<and> japi_uri_arguments (snd (get_handler (ex_api True) (ex_request ''/api/widgets''))) = Map.empty"
  by (simp add: route_defs ex_api_def API_def rstrip_slash_def ex_request_def)

section \<open>Dispatch\<close>

text \<open>Where a domain error can arise inside the \<open>try\<close> block, stage by stage.\<close>

lemma try_prepare_raises:
  assumes "prepare_hook c self req = Inl e"
  shows "handle_request_try c self req = Inl e"
  using assms by (simp add: handle_request_try_def)

lemma try_no_route:
  assumes "prepare_hook c self req = Inr req1" and "fst (get_handler self req1) = None"
  shows "handle_request_try c self req = Inl (Error NotFound)"
  using assms by (cases "get_handler self req1") (simp add: handle_request_try_def)

lemma try_handler_raises:
  assumes "prepare_hook c self req = Inr req1" and "get_handler self req1 = (Some h, req2)"
    and "h req2 = Inl e"
  shows "handle_request_try c self req = Inl e"
  using assms by (simp add: handle_request_try_def)

lemma try_fetch_include_raises:
  assumes "prepare_hook c self req = Inr req1" and "get_handler self req1 = (Some h, req2)"
    and "h req2 = Inr (ResponseBuilder b)" and "is_include_mixin b" and "fetch_include b = Some e"
  shows "handle_request_try c self req = Inl e"
  using assms by (simp add: handle_request_try_def)

lemma try_to_response_raises:
  assumes "prepare_hook c self req = Inr req1" and "get_handler self req1 = (Some h, req2)"
    and "h req2 = Inr (ResponseBuilder b)" and "is_include_mixin b \<longrightarrow> fetch_include b = None"
    and "to_response b = Inl e"
  shows "handle_request_try c self req = Inl e"
  using assms by (simp add: handle_request_try_def)

text \<open>An exception outside the domain hierarchy is not caught, in either mode.\<close>

lemma handle_request_other_exception:
  assumes "request_api req = None \<or> request_api req = Some (api_id self)"
    and "handle_request_try c self (req\<lparr>request_api := Some (api_id self)\<rparr>) = Inl e"
    and "\<forall>err. e \<noteq> Error err"
  shows "handle_request c self req = Inl e"
  using assms by (cases e) (auto simp: handle_request_def)

text \<open>
  Claim C2.  When the \<open>try\<close> block of \<open>handle_request\<close> (prepare, routing, handling,
  builder finalization) raises a domain error: in debug mode \<open>handle_request\<close> raises
  that same error and returns no response; otherwise it raises nothing and returns the
  response \<open>error_to_response\<close> builds from the error, whose status is not 2xx by the
  serializer's contract.
\<close>

theorem handle_request_error_policy:
  assumes "request_api req = None \<or> request_api req = Some (api_id self)"
    and "handle_request_try c self (req\<lparr>request_api := Some (api_id self)\<rparr>) = Inl (Error err)"
    and "error_response_contract (error_to_response c)"
  shows "(debug self \<longrightarrow> handle_request c self req = Inl (Error err))
     \<and> (\<not> debug self \<longrightarrow>
          handle_request c self req = Inr (error_to_response c err (dump_json (json_dumps c) self))
          \<and> (\<exists>resp. handle_request c self req = Inr resp
                \<and> \<not> (200 \<le> status resp \<and> status resp < 300)))"
proof -
  have "\<not> (200 \<le> status (error_to_response c err (dump_json (json_dumps c) self))
          \<and> status (error_to_response c err (dump_json (json_dumps c) self)) < 300)"
    using assms(3) by (simp add: error_response_contract_def)
  then show ?thesis
    using assms(1,2) by (auto simp: handle_request_def)
qed

theorem handle_request_error_policy_witness:
  "request_api (ex_request ''/widgets'') = None
   \<and> error_response_contract (error_to_response ex_collaborators)
   \<and> handle_request_try ex_collaborators (ex_api True)
        ((ex_request ''/widgets'')\<lparr>request_api := Some (api_id (ex_api True))\<rparr>) = Inl (Error NotFound)
   \<and> handle_request ex_collaborators (ex_api True) (ex_request ''/widgets'') = Inl (Error NotFound)
   \<and> handle_request ex_collaborators (ex_api False) (ex_request ''/widgets'') = Inr (ex_response 404)"
proof -
  have contract: "error_response_contract (error_to_response ex_collaborators)"
    by (simp add: error_response_contract_def ex_collaborators_def ex_response_def)
  have bind: "request_api (ex_request ''/widgets'') = None"
    by (simp add: ex_request_def)
  have route: "get_handler (ex_api dbg) ((ex_request ''/widgets'')\<lparr>request_api := Some 0\<rparr>)
      = (None, (ex_request ''/widgets'')\<lparr>request_api := Some 0\<rparr>)" for dbg
    by (simp add: route_defs ex_api_def API_def rstrip_slash_def ex_request_def)
  have id: "api_id (ex_api dbg) = 0" for dbg
    by (simp add: ex_api_def API_def)
  have raised: "handle_request_try ex_collaborators (ex_api dbg)
      ((ex_request ''/widgets'')\<lparr>request_api := Some (api_id (ex_api dbg))\<rparr>) = Inl (Error NotFound)" for dbg
    using route [of dbg]
    by (simp add: handle_request_try_def ex_collaborators_def prepare_request_def id)
  have dbg: "debug (ex_api True)" "\<not> debug (ex_api False)"
    by (simp_all add: debug_def ex_api_def API_def)
  have "handle_request ex_collaborators (ex_api True) (ex_request ''/widgets'') = Inl (Error NotFound)"
    using handle_request_error_policy [of "ex_request ''/widgets''" "ex_api True" ex_collaborators NotFound]
      bind raised [of True] contract dbg by simp
  moreover have "handle_request ex_collaborators (ex_api False) (ex_request ''/widgets'')
      = Inr (ex_response 404)"
    using handle_request_error_policy [of "ex_request ''/widgets''" "ex_api False" ex_collaborators NotFound]
      bind raised [of False] contract dbg by (simp add: ex_collaborators_def)
  ultimately show ?thesis
    using bind contract raised [of True] by simp
qed

section \<open>The registry: lookup, registration, identifiers\<close>



text \<open>A registered includer is found by its typename.\<close>

lemma get_includer_registered:
  "get_includer ex_registry (PStr ''User'') None = Inr (Found user_includer)"
  by (simp add: ex_registry_def API_def get_includer_def dict_get_def)

text \<open>
  \<open>add_type\<close> with an encoder that has no resource class, or no typename, raises
  \<open>AttributeError\<close> while it builds the warning, and leaves the API as it was.
\<close>

lemma add_type_incomplete_encoder:
  assumes "resource_class encoder = None \<or> typename encoder = None"
  shows "add_type self encoder includer = (Some AttributeError, self, [])"
  using assms by (auto simp: add_type_def self_typename_def)

text \<open>With both keys the encoder is registered under both, and no warning is logged.\<close>

lemma add_type_complete_encoder:
  assumes "resource_class encoder = Some rc" and "typename encoder = Some t"
    and "encoder_init_api encoder (api_id self) = None"
    and "api_encoder self (PClass rc) = None"
  shows "\<exists>self'. add_type self encoder None = (None, self', [])
     \<and> get_encoder self' (PStr t) None = Inr (Found encoder)
     \<and> get_encoder self' (PClass rc) None = Inr (Found encoder)"
  using assms
  by (simp add: add_type_def typename_key_def get_encoder_def dict_get_def)

text \<open>
  Claim C5 (the code departs from it).  Registering the encoder of \<open>widgets\<close> that has no
  resource class on a fresh API does not complete: the call raises \<open>AttributeError\<close>, logs
  nothing, and the encoder is not reachable by its typename afterwards.  The same holds
  for an encoder with a resource class and no typename.
\<close>

theorem add_type_without_resource_class_raises:
  "add_type (API 0 ''http://x/api'' True) (ex_encoder (Some ''widgets'') None) None
     = (Some AttributeError, API 0 ''http://x/api'' True, [])
   \<and> get_encoder (fst (snd (add_type (API 0 ''http://x/api'' True) (ex_encoder (Some ''widgets'') None) None)))
        (PStr ''widgets'') None = Inl KeyError
   \<and> add_type (API 0 ''http://x/api'' True) (ex_encoder None (Some ''Widget'')) None
     = (Some AttributeError, API 0 ''http://x/api'' True, [])
   \<and> get_encoder (fst (snd (add_type (API 0 ''http://x/api'' True) (ex_encoder None (Some ''Widget'')) None)))
        (PClass ''Widget'') None = Inl KeyError"
  by (simp add: add_type_def self_typename_def ex_encoder_def API_def get_encoder_def dict_get_def)

text \<open>\<open>None\<close> in the two identifier normalisations.\<close>

lemma ensure_identifier_object_None:
  "ensure_identifier_object self PNone = Inr PNone"
  by (simp add: ensure_identifier_object_def)

lemma ensure_identifier_None:
  "ensure_identifier self PNone =
     (case get_encoder self PNone None of
        Inl e \<Rightarrow> Inl e
      | Inr (Default d) \<Rightarrow> Inl AttributeError
      | Inr (Found encoder) \<Rightarrow>
          Inr (PTuple [(case typename encoder of None \<Rightarrow> ANone | Some t \<Rightarrow> AStr t),
                       AStr (encoder_id encoder PNone)]))"
  by (simp add: ensure_identifier_def)

text \<open>
  Claim C6 (the code departs from it).  \<open>ensure_identifier_object(None)\<close> returns \<open>None\<close>,
  but \<open>ensure_identifier(None)\<close> has no branch for \<open>None\<close>: it looks \<open>None\<close> up in the
  registry and, on an API with nothing registered, raises \<open>KeyError\<close>.
\<close>

theorem ensure_identifier_None_raises:
  "ensure_identifier (API 0 ''http://x/api'' True) PNone = Inl KeyError
   \<and> ensure_identifier_object (API 0 ''http://x/api'' True) PNone = Inr PNone"
  by (simp add: ensure_identifier_def ensure_identifier_object_def get_encoder_def dict_get_def API_def)

text \<open>The other shapes: a pair and a document normalise to the same stringified pair.\<close>

lemma ensure_identifier_pair_and_document:
  "ensure_identifier self (PTuple [AStr ''people'', AInt 7]) = Inr (PTuple [AStr ''people'', AStr ''7''])
   \<and> ensure_identifier self (PDict [(''type'', AStr ''people''), (''id'', AInt 7), (''extra'', AStr ''ignored'')])
      = Inr (PTuple [AStr ''people'', AStr ''7''])"
  by (simp add: ensure_identifier_def digit_char_def)

section \<open>Include paths: validation and fetching\<close>

lemma remote_types_loop_True:
  assumes "includer_api self = Some i"
  shows "fst (remote_types_loop apis self rts rest) = Inr True \<longleftrightarrow>
     (\<forall>t\<in>set rts. \<exists>ri. get_includer (apis i) (PStr t) None = Inr (Found ri)
        \<and> fst (path_exists apis ri rest) = Inr True)"
  using assms
  by (induction rts) (auto split: sum.splits lookup.splits prod.splits option.splits)

lemma get_includer_unregistered:
  assumes "api_includer a (PStr t) = None"
    and "api_resource_class_to_includer a (PStr t) = None"
    and "api_resource_class_to_includer a (PClass ''str'') = None"
  shows "get_includer a (PStr t) None = Inl KeyError"
  using assms by (simp add: get_includer_def dict_get_def)

lemma remote_types_loop_KeyError:
  assumes "includer_api self = Some i"
    and "get_includer (apis i) (PStr t) None = Inl KeyError"
    and "\<forall>u\<in>set pre. \<exists>ri. get_includer (apis i) (PStr u) None = Inr (Found ri)
        \<and> fst (path_exists apis ri rest) = Inr True"
  shows "fst (remote_types_loop apis self (pre @ t # post) rest) = Inl KeyError"
  using assms
  by (induction pre) (auto split: sum.splits lookup.splits prod.splits option.splits)

lemma add_loop_all_None:
  assumes "\<forall>r\<in>set rs. relationship_get rel r req = Inr PNone"
  shows "add_loop rel req rs S = Inr (if rs = [] then S else insert PNone S)"
  using assms
  by (induction rs arbitrary: S) auto

lemma add_loop_total:
  assumes "\<forall>r\<in>set rs. \<exists>v. relationship_get rel r req = Inr v \<and> hashable v"
  shows "add_loop rel req rs S = Inr (S \<union> {v. \<exists>r\<in>set rs. relationship_get rel r req = Inr v})"
  using assms
proof (induction rs arbitrary: S)
  case Nil
  then show ?case by simp
next
  case (Cons r rs)
  then obtain v where v: "relationship_get rel r req = Inr v" "hashable v" by auto
  have "add_loop rel req (r # rs) S = add_loop rel req rs (insert v S)"
    using v by simp
  also have "\<dots> = Inr (insert v S \<union> {v. \<exists>r\<in>set rs. relationship_get rel r req = Inr v})"
    using Cons by simp
  finally show ?case using v by auto
qed

text \<open>
  Claim C3.  \<open>path_exists\<close> returns true on the empty path; false when the first name has
  no relationship descriptor; true, with one warning, when the descriptor's remote types
  are unknown; and otherwise (for an includer bound to its API) it returns true exactly
  when every declared remote type resolves to an includer in the registry and that
  includer returns true on the remaining path.
\<close>

theorem path_exists_semantics:
  "path_exists apis self [] = (Inr True, [])
   \<and> (relationships self nm = None \<longrightarrow> path_exists apis self (nm # rest) = (Inr False, []))
   \<and> (relationships self nm = Some r \<and> remote_types r = None \<longrightarrow>
        (\<exists>fmt. path_exists apis self (nm # rest) = (Inr True, [Warning fmt [join_dot rest, nm]])))
   \<and> (relationships self nm = Some r \<and> remote_types r = Some rts \<and> includer_api self = Some i \<longrightarrow>
        (fst (path_exists apis self (nm # rest)) = Inr True \<longleftrightarrow>
           (\<forall>t\<in>set rts. \<exists>ri. get_includer (apis i) (PStr t) None = Inr (Found ri)
              \<and> fst (path_exists apis ri rest) = Inr True)))"
proof (intro conjI impI)
  show "path_exists apis self [] = (Inr True, [])" by simp
next
  assume "relationships self nm = None"
  then show "path_exists apis self (nm # rest) = (Inr False, [])" by simp
next
  assume "relationships self nm = Some r \<and> remote_types r = None"
  then show "\<exists>fmt. path_exists apis self (nm # rest) = (Inr True, [Warning fmt [join_dot rest, nm]])"
    by simp
next
  assume a: "relationships self nm = Some r \<and> remote_types r = Some rts \<and> includer_api self = Some i"
  then have "path_exists apis self (nm # rest) = remote_types_loop apis self rts rest"
    by simp
  then show "fst (path_exists apis self (nm # rest)) = Inr True \<longleftrightarrow>
      (\<forall>t\<in>set rts. \<exists>ri. get_includer (apis i) (PStr t) None = Inr (Found ri)
         \<and> fst (path_exists apis ri rest) = Inr True)"
    using a remote_types_loop_True [of self i apis rts rest] by simp
qed

theorem path_exists_semantics_witness:
  "relationships article_includer ''subject'' = Some (ex_rel ToOneRelationship ''subject'' (Some [''Comment'', ''User'']))
   \<and> includer_api article_includer = Some 0
   \<and> get_includer (ex_apis 0) (PStr ''Comment'') None = Inr (Found comment_includer)
   \<and> get_includer (ex_apis 0) (PStr ''User'') None = Inr (Found user_includer)
   \<and> fst (path_exists ex_apis comment_includer [''author'']) = Inr True
   \<and> fst (path_exists ex_apis user_includer [''author'']) = Inr False
   \<and> fst (path_exists ex_apis article_includer [''subject'', ''author'']) = Inr False
   \<and> fst (path_exists ex_apis article_includer [''subject'']) = Inr True"
  using path_exists_semantics [of ex_apis article_includer "''subject''" "[''author'']"
      "ex_rel ToOneRelationship ''subject'' (Some [''Comment'', ''User''])" "[''Comment'', ''User'']" 0]
    path_exists_semantics [of ex_apis article_includer "''subject''" "[]"
      "ex_rel ToOneRelationship ''subject'' (Some [''Comment'', ''User''])" "[''Comment'', ''User'']" 0]
  by (simp add: article_includer_def comment_includer_def user_includer_def ex_rel_def ex_apis_def
      ex_registry_def API_def get_includer_def dict_get_def)

text \<open>
  Claim C7.  For a to-one relationship, a set returned by \<open>fetch_path\<close> never contains
  \<open>None\<close>: when every accessor call returns a hashable value the result is the set of
  those values without \<open>None\<close>, and when every accessor call returns \<open>None\<close> it is the
  empty set.
\<close>

theorem fetch_path_to_one_discards_None:
  assumes "relationships self nm = Some rel" and "to_one rel"
  shows "(\<forall>S. fetch_path self resources (nm # rest) req = Inr S \<longrightarrow> PNone \<notin> S)
     \<and> ((\<forall>r\<in>set resources. \<exists>v. relationship_get rel r req = Inr v \<and> hashable v) \<longrightarrow>
          fetch_path self resources (nm # rest) req =
            Inr ({v. \<exists>r\<in>set resources. relationship_get rel r req = Inr v} - {PNone}))
     \<and> ((\<forall>r\<in>set resources. relationship_get rel r req = Inr PNone) \<longrightarrow>
          fetch_path self resources (nm # rest) req = Inr {})"
proof (intro conjI allI impI)
  fix S
  assume "fetch_path self resources (nm # rest) req = Inr S"
  then show "PNone \<notin> S"
    using assms by (auto simp: fetch_path_def split: sum.splits)
next
  assume "\<forall>r\<in>set resources. \<exists>v. relationship_get rel r req = Inr v \<and> hashable v"
  then have "add_loop rel req resources {} =
      Inr ({} \<union> {v. \<exists>r\<in>set resources. relationship_get rel r req = Inr v})"
    by (rule add_loop_total)
  then show "fetch_path self resources (nm # rest) req =
      Inr ({v. \<exists>r\<in>set resources. relationship_get rel r req = Inr v} - {PNone})"
    using assms by (simp add: fetch_path_def)
next
  assume "\<forall>r\<in>set resources. relationship_get rel r req = Inr PNone"
  then have "add_loop rel req resources {} = Inr (if resources = [] then {} else insert PNone {})"
    by (rule add_loop_all_None)
  then show "fetch_path self resources (nm # rest) req = Inr {}"
    using assms by (simp add: fetch_path_def)
qed

theorem fetch_path_to_one_discards_None_witness:
  "relationships article_includer ''author'' = Some (ex_rel ToOneRelationship ''author'' (Some [''User'']))
   \<and> to_one (ex_rel ToOneRelationship ''author'' (Some [''User'']))
   \<and> relationship_get (ex_rel ToOneRelationship ''author'' (Some [''User''])) (ex_article 1 PNone)
        (ex_request ''/api/Article'') = Inr PNone
   \<and> fetch_path article_includer [ex_article 1 PNone, ex_article 2 PNone] [''author'']
        (ex_request ''/api/Article'') = Inr {}
   \<and> fetch_path article_includer [ex_article 1 PNone, ex_article 2 ex_user] [''author'']
        (ex_request ''/api/Article'') = Inr {ex_user}"
  using fetch_path_to_one_discards_None [of article_includer "''author''"
      "ex_rel ToOneRelationship ''author'' (Some [''User''])"
      "[ex_article 1 PNone, ex_article 2 PNone]" "[]" "ex_request ''/api/Article''"]
  by (simp add: article_includer_def ex_rel_def ex_article_def ex_user_def to_one_def
      relationship_get_def default_get_def fetch_path_def insert_Diff_if)

text \<open>
  Claim C8.  \<open>fetch_path\<close> reads only the head of the path: the result for a path with
  head \<open>nm\<close> and any tail is the result for the one-segment path \<open>[nm]\<close>.
\<close>

theorem fetch_path_head_only:
  "fetch_path self resources (nm # rest) req = fetch_path self resources [nm] req"
  by (simp add: fetch_path_def)

theorem fetch_path_head_only_witness:
  "fetch_path article_includer [ex_article 2 ex_user] [''author'', ''articles'', ''comments'']
     (ex_request ''/api/Article'')
   = fetch_path article_includer [ex_article 2 ex_user] [''author''] (ex_request ''/api/Article'')
   \<and> fetch_path article_includer [ex_article 2 ex_user] [''author''] (ex_request ''/api/Article'')
   = Inr {ex_user}"
  using fetch_path_head_only [of article_includer "[ex_article 2 ex_user]" "''author''"
      "[''articles'', ''comments'']" "ex_request ''/api/Article''"]
  by (simp add: article_includer_def ex_rel_def ex_article_def ex_user_def to_one_def
      relationship_get_def default_get_def fetch_path_def)

text \<open>
  Claim C9.  \<open>fetch_path\<close> raises on the empty path (\<open>ValueError\<close> from the unpacking)
  and raises \<open>KeyError\<close> when the head of the path names no relationship of the includer;
  on the same inputs \<open>path_exists\<close> returns true and false, and raises nothing.
\<close>

theorem fetch_path_partial_path_exists_total:
  "fetch_path self resources [] req = Inl ValueError
   \<and> fst (path_exists apis self []) = Inr True
   \<and> (relationships self nm = None \<longrightarrow>
        fetch_path self resources (nm # rest) req = Inl KeyError
        \<and> fst (path_exists apis self (nm # rest)) = Inr False)"
  by (simp add: fetch_path_def)

theorem fetch_path_partial_path_exists_total_witness:
  "relationships article_includer ''nothing'' = None
   \<and> fetch_path article_includer [ex_article 2 ex_user] [] (ex_request ''/api/Article'') = Inl ValueError
   \<and> fst (path_exists ex_apis article_includer []) = Inr True
   \<and> fetch_path article_includer [ex_article 2 ex_user] [''nothing'', ''author'']
        (ex_request ''/api/Article'') = Inl KeyError
   \<and> fst (path_exists ex_apis article_includer [''nothing'', ''author'']) = Inr False"
  using fetch_path_partial_path_exists_total [of article_includer "[ex_article 2 ex_user]"
      "ex_request ''/api/Article''" ex_apis "''nothing''" "[''author'']"]
  by (simp add: article_includer_def)

text \<open>
  The loop stops at the first remote type whose includer rejects the remaining path:
  whatever is declared after it is not looked up.
\<close>

lemma remote_types_loop_False:
  assumes "includer_api self = Some i"
    and "get_includer (apis i) (PStr t) None = Inr (Found rt)"
    and "fst (path_exists apis rt rest) = Inr False"
    and "\<forall>u\<in>set pre. \<exists>ri. get_includer (apis i) (PStr u) None = Inr (Found ri)
        \<and> fst (path_exists apis ri rest) = Inr True"
  shows "fst (remote_types_loop apis self (pre @ t # post) rest) = Inr False"
  using assms
  by (induction pre) (auto split: sum.splits lookup.splits prod.splits option.splits)

text \<open>
  Claim C10, as amended.  In the loop over the remote types, taken in the order in which
  \<open>remote_types\<close> yields them, each typename is resolved by \<open>get_includer\<close> without a
  default, and the loop ends at the first one that does not confirm the remaining path.
  Let \<open>t\<close> be a remote type such that every remote type before it resolves to an includer
  that confirms the remaining path.  If \<open>t\<close> has no registered includer, the call raises
  \<open>KeyError\<close>.  If \<open>t\<close> resolves to an includer that rejects the remaining path, the call
  returns false, whatever the remote types after \<open>t\<close> are, registered or not: they are
  never resolved.
\<close>

theorem path_exists_unregistered_remote_type:
  assumes "relationships self nm = Some r"
    and "remote_types r = Some (pre @ t # post)"
    and "includer_api self = Some i"
    and "\<forall>u\<in>set pre. \<exists>ri. get_includer (apis i) (PStr u) None = Inr (Found ri)
        \<and> fst (path_exists apis ri rest) = Inr True"
  shows "(api_includer (apis i) (PStr t) = None
          \<and> api_resource_class_to_includer (apis i) (PStr t) = None
          \<and> api_resource_class_to_includer (apis i) (PClass ''str'') = None \<longrightarrow>
            fst (path_exists apis self (nm # rest)) = Inl KeyError)
       \<and> (\<forall>rt. get_includer (apis i) (PStr t) None = Inr (Found rt)
              \<and> fst (path_exists apis rt rest) = Inr False \<longrightarrow>
            fst (path_exists apis self (nm # rest)) = Inr False)"
proof (intro conjI allI impI)
  assume "api_includer (apis i) (PStr t) = None
      \<and> api_resource_class_to_includer (apis i) (PStr t) = None
      \<and> api_resource_class_to_includer (apis i) (PClass ''str'') = None"
  then have "get_includer (apis i) (PStr t) None = Inl KeyError"
    by (simp add: get_includer_unregistered)
  then have "fst (remote_types_loop apis self (pre @ t # post) rest) = Inl KeyError"
    using assms(3,4) remote_types_loop_KeyError by blast
  then show "fst (path_exists apis self (nm # rest)) = Inl KeyError"
    using assms(1,2) by simp
next
  fix rt
  assume "get_includer (apis i) (PStr t) None = Inr (Found rt)
      \<and> fst (path_exists apis rt rest) = Inr False"
  then have "fst (remote_types_loop apis self (pre @ t # post) rest) = Inr False"
    using assms(3,4) remote_types_loop_False by blast
  then show "fst (path_exists apis self (nm # rest)) = Inr False"
    using assms(1,2) by simp
qed

theorem path_exists_unregistered_remote_type_witness:
  "relationships article_includer ''editor'' = Some (ex_rel ToOneRelationship ''editor'' (Some [''User'', ''Robot'']))
   \<and> includer_api article_includer = Some 0
   \<and> api_includer (ex_apis 0) (PStr ''Robot'') = None
   \<and> api_resource_class_to_includer (ex_apis 0) (PStr ''Robot'') = None
   \<and> api_resource_class_to_includer (ex_apis 0) (PClass ''str'') = None
   \<and> get_includer (ex_apis 0) (PStr ''User'') None = Inr (Found user_includer)
   \<and> fst (path_exists ex_apis user_includer [''articles'']) = Inr True
   \<and> fst (path_exists ex_apis article_includer [''editor'', ''articles'']) = Inl KeyError
   \<and> fst (path_exists ex_apis user_includer [''nothing'']) = Inr False
   \<and> fst (path_exists ex_apis article_includer [''editor'', ''nothing'']) = Inr False"
  using path_exists_unregistered_remote_type [of article_includer "''editor''"
      "ex_rel ToOneRelationship ''editor'' (Some [''User'', ''Robot''])" "[''User'']" "''Robot''" "[]"
      0 ex_apis "[''articles'']"]
    path_exists_unregistered_remote_type [of article_includer "''editor''"
      "ex_rel ToOneRelationship ''editor'' (Some [''User'', ''Robot''])" "[]" "''User''" "[''Robot'']"
      0 ex_apis "[''nothing'']"]
  by (simp add: article_includer_def user_includer_def comment_includer_def ex_rel_def ex_apis_def
      ex_registry_def API_def get_includer_def dict_get_def)

text \<open>
  Claim C10 as stated fails: the editor of an article has the remote types \<open>User\<close> and
  \<open>Robot\<close>, and \<open>Robot\<close> has no registered includer, yet \<open>path_exists\<close> returns false on the
  path \<open>editor.nothing\<close>, because the includer of \<open>User\<close> rejects \<open>nothing\<close> first.
\<close>

theorem path_exists_unregistered_remote_type_counterexample:
  "relationships article_includer ''editor'' = Some (ex_rel ToOneRelationship ''editor'' (Some [''User'', ''Robot'']))
   \<and> get_includer (ex_apis 0) (PStr ''Robot'') None = Inl KeyError
   \<and> path_exists ex_apis article_includer [''editor'', ''nothing''] = (Inr False, [])"
  by (simp add: article_includer_def user_includer_def comment_includer_def ex_rel_def ex_apis_def
      ex_registry_def API_def get_includer_def dict_get_def)

end
